theory Spec2Isabelle
  imports Main
begin

section \<open>The objects of the library, as the notebook builds them\<close>

text \<open>
  The notebook \<^verbatim>\<open>tutorials/lunar_lander/lunar_lander.ipynb\<close> is a straight-line script:
  it builds library objects from literals, calls the training loop and stores and plots what
  comes back. An object of the library is known here only by the constructor call that made
  it, so it is modelled by its class and the arguments of that call.
\<close>

text \<open>The object returned by \<^verbatim>\<open>GymEnvironment(env_str)\<close>: its identity and its identifier.\<close>

record gym_env =
  env_handle :: int
  env_id :: string

text \<open>
  Argument values. \<open>PFloat m e\<close> is the decimal literal \<open>m * 10^e\<close> (\<^verbatim>\<open>1e-3\<close> is
  \<open>PFloat 1 (-3)\<close>, \<^verbatim>\<open>0.75\<close> is \<open>PFloat 75 (-2)\<close>). \<open>ObservationDim e\<close> is
  \<^verbatim>\<open>e.observation_space.shape[0]\<close>, \<open>NumActions e\<close> is \<^verbatim>\<open>e.action_space.n\<close> and
  \<open>ActionSpace e\<close> is \<^verbatim>\<open>e.action_space\<close>. \<open>Instance c ps kws\<close> is the object built
  by the call of class \<open>c\<close> with positional arguments \<open>ps\<close> and keyword arguments \<open>kws\<close>.
\<close>

datatype pyval =
    PInt int
  | PFloat int int
  | PBool bool
  | PInts "int list"
  | ObservationDim gym_env
  | NumActions gym_env
  | ActionSpace gym_env
  | Instance string "pyval list" "(string \<times> pyval) list"

datatype learner_class =
  DoubleDQN | ProximalPolicyOptimization | ContinuousProximalPolicyOptimization

datatype buffer_class = FIFOOffPolicyReplayBuffer | OnPolicyReplayBuffer

record policy_learner =
  learner_class :: learner_class
  learner_kwargs :: "(string \<times> pyval) list"

record replay_buffer =
  buffer_class :: buffer_class
  capacity :: int

text \<open>\<^verbatim>\<open>PearlAgent(policy_learner=..., replay_buffer=...)\<close>, with the identity of the object.\<close>

record pearl_agent =
  agent_id :: int
  policy_learner :: policy_learner
  replay_buffer :: replay_buffer

text \<open>
  One call of \<^verbatim>\<open>online_learning\<close>. \<open>agent\<close> and \<open>env\<close> are its required parameters; a
  keyword argument that the call does not pass is \<open>None\<close>.
\<close>

record ol_call =
  agent :: pearl_agent
  env :: gym_env
  number_of_episodes :: "int option"
  print_every_x_episodes :: "int option"
  record_period :: "int option"
  learn_after_episode :: "bool option"
  learn_every_k_steps :: "int option"
  seed :: "int option"

text \<open>
  The training loop itself belongs to the library. It is a parameter of the model: a function
  from the call to the dictionary it returns, whose values are series of episodic returns of
  an arbitrary type \<open>'r\<close>. What the loop does to the agent and to the environment stays
  inside the library and is not part of the kernel state.
\<close>

type_synonym 'r info = "string \<rightharpoonup> 'r list"
type_synonym 'r training_loop = "ol_call \<Rightarrow> 'r info"



section \<open>The kernel state\<close>

datatype error =
    NameError string
  | KeyError string
  | FileExistsError string
  | RuntimeError string

text \<open>What the notebook does to the world outside its variables, in the order it does it.\<close>

datatype 'r event =
    SetSeed int
  | AssignEnvStr string
  | EnvMake gym_env
  | EnvClose gym_env
  | Makedirs string bool
  | AgentNew pearl_agent
  | Train ol_call
  | Save "'r list" string
  | PltPlot "nat list" "'r list" string
  | PltTitle string
  | PltXlabel string
  | PltYlabel string
  | PltLegend
  | PltShow

text \<open>
  The global variables of the notebook (unset is \<open>None\<close>), the seed, the object counter, the
  open environments, the directories and saved files of the working directory, the number of
  the running cell, and the log of events, each with the cell that caused it.
\<close>

record 'r kernel =
  env_str :: "string option"
  env_var :: "gym_env option"
  hidden_dims :: "int list option"
  q_value_network :: "pyval option"
  double_dqn_agent :: "pearl_agent option"
  ppo_agent :: "pearl_agent option"
  info_double_dqn :: "'r info option"
  info_ppo :: "'r info option"
  global_seed :: "int option"
  next_id :: int
  open_envs :: "int list"
  dirs :: "string set"
  files :: "string \<rightharpoonup> 'r list"
  cell_no :: nat
  log :: "(nat \<times> 'r event) list"

type_synonym 'r stmt = "'r kernel \<Rightarrow> error + 'r kernel"

text \<open>
  The kernel after the installation cells 1 to 7 (shell and pip commands only), with the
  directories \<open>D\<close> and files \<open>F\<close> that the working directory holds at that moment.
\<close>

definition fresh_kernel :: "string set \<Rightarrow> (string \<rightharpoonup> 'r list) \<Rightarrow> 'r kernel" where
  "fresh_kernel D F =
     \<lparr>env_str = None, env_var = None, hidden_dims = None, q_value_network = None,
      double_dqn_agent = None, ppo_agent = None, info_double_dqn = None, info_ppo = None,
      global_seed = None, next_id = 0, open_envs = [], dirs = D, files = F,
      cell_no = 0, log = []\<rparr>"

definition emit :: "'r event \<Rightarrow> 'r kernel \<Rightarrow> 'r kernel" where
  "emit ev k = k\<lparr>log := log k @ [(cell_no k, ev)]\<rparr>"

text \<open>Reading a global variable: \<^verbatim>\<open>NameError\<close> when it is not set.\<close>

fun var :: "string \<Rightarrow> 'a option \<Rightarrow> ('a \<Rightarrow> error + 'b) \<Rightarrow> error + 'b" where
  "var name None f = Inl (NameError name)"
| "var name (Some x) f = f x"

text \<open>\<^verbatim>\<open>d[key]\<close>: \<^verbatim>\<open>KeyError\<close> when the key is missing.\<close>

fun subscript :: "'r info \<Rightarrow> string \<Rightarrow> ('r list \<Rightarrow> error + 'b) \<Rightarrow> error + 'b" where
  "subscript d key f = (case d key of None \<Rightarrow> Inl (KeyError key) | Some v \<Rightarrow> f v)"

text \<open>Statements in sequence; the first exception ends the run.\<close>

fun block :: "'r stmt list \<Rightarrow> 'r stmt" where
  "block [] k = Inr k"
| "block (s # ss) k = (case s k of Inl e \<Rightarrow> Inl e | Inr k' \<Rightarrow> block ss k')"


section \<open>The calls the notebook makes\<close>

definition set_seed :: "int \<Rightarrow> 'r stmt" where
  "set_seed n k = Inr (emit (SetSeed n) (k\<lparr>global_seed := Some n\<rparr>))"

definition GymEnvironment :: "string \<Rightarrow> 'r kernel \<Rightarrow> gym_env \<times> 'r kernel" where
  "GymEnvironment name k =
     (let e = \<lparr>env_handle = next_id k, env_id = name\<rparr>
      in (e, emit (EnvMake e)
               (k\<lparr>next_id := next_id k + 1, open_envs := open_envs k @ [env_handle e]\<rparr>)))"

definition close :: "gym_env \<Rightarrow> 'r kernel \<Rightarrow> 'r kernel" where
  "close e k = emit (EnvClose e) (k\<lparr>open_envs := removeAll (env_handle e) (open_envs k)\<rparr>)"

text \<open>
  \<^verbatim>\<open>os.makedirs(name, exist_ok=...)\<close> on a name without separators: an existing directory
  raises \<^verbatim>\<open>FileExistsError\<close> unless \<open>exist_ok\<close> is set. The working directory is the set
  of its directories and the map of its saved files; a file and a directory of one name are
  outside the model.
\<close>

definition os_makedirs :: "string \<Rightarrow> bool \<Rightarrow> 'r stmt" where
  "os_makedirs name exist_ok k =
     (if name \<in> dirs k \<and> \<not> exist_ok then Inl (FileExistsError name)
      else Inr (emit (Makedirs name exist_ok) (k\<lparr>dirs := insert name (dirs k)\<rparr>)))"

text \<open>\<^verbatim>\<open>os.path.join(a, b)\<close> and \<^verbatim>\<open>os.path.dirname(p)\<close> of \<^verbatim>\<open>posixpath\<close>.\<close>

definition os_path_join :: "string \<Rightarrow> string \<Rightarrow> string" where
  "os_path_join a b =
     (if b \<noteq> [] \<and> hd b = CHR ''/'' then b
      else if a = [] \<or> last a = CHR ''/'' then a @ b
      else a @ ''/'' @ b)"

definition rstrip_slash :: "string \<Rightarrow> string" where
  "rstrip_slash p = rev (dropWhile (\<lambda>c. c = CHR ''/'') (rev p))"

definition os_path_dirname :: "string \<Rightarrow> string" where
  "os_path_dirname p =
     (let h = rev (dropWhile (\<lambda>c. c \<noteq> CHR ''/'') (rev p))
      in if h \<noteq> [] \<and> rstrip_slash h \<noteq> [] then rstrip_slash h else h)"

text \<open>
  \<^verbatim>\<open>torch.save(obj, f)\<close> writes the file; it raises \<^verbatim>\<open>RuntimeError\<close> (parent directory
  does not exist) when the directory of \<open>f\<close> is missing.
\<close>

definition torch_save :: "'r list \<Rightarrow> string \<Rightarrow> 'r stmt" where
  "torch_save obj f k =
     (let d = os_path_dirname f
      in if d \<noteq> [] \<and> d \<notin> dirs k then Inl (RuntimeError d)
         else Inr (emit (Save obj f) (k\<lparr>files := (files k)(f \<mapsto> obj)\<rparr>)))"

definition np_arange :: "nat \<Rightarrow> nat list" where
  "np_arange n = [0..<n]"

definition PearlAgent ::
  "policy_learner \<Rightarrow> replay_buffer \<Rightarrow> 'r kernel \<Rightarrow> pearl_agent \<times> 'r kernel" where
  "PearlAgent pl rb k =
     (let a = \<lparr>agent_id = next_id k, policy_learner = pl, replay_buffer = rb\<rparr>
      in (a, emit (AgentNew a) (k\<lparr>next_id := next_id k + 1\<rparr>)))"

definition online_learning ::
  "'r training_loop \<Rightarrow> ol_call \<Rightarrow> 'r kernel \<Rightarrow> 'r info \<times> 'r kernel" where
  "online_learning ol c k = (ol c, emit (Train c) k)"

definition OneHotActionTensorRepresentationModule :: "gym_env \<Rightarrow> pyval" where
  "OneHotActionTensorRepresentationModule e =
     Instance ''OneHotActionTensorRepresentationModule'' []
       [(''max_number_actions'', NumActions e)]"


section \<open>Statements that recur in the cells\<close>

text \<open>\<^verbatim>\<open>env_str = "..."\<close>\<close>

definition assign_env_str :: "string \<Rightarrow> 'r stmt" where
  "assign_env_str name k = Inr (emit (AssignEnvStr name) (k\<lparr>env_str := Some name\<rparr>))"

text \<open>\<^verbatim>\<open>env = GymEnvironment(env_str)\<close>\<close>

definition make_env :: "'r stmt" where
  "make_env k =
     var ''env_str'' (env_str k) (\<lambda>name.
       let (e, k') = GymEnvironment name k in Inr (k'\<lparr>env_var := Some e\<rparr>))"

text \<open>\<^verbatim>\<open>env.close()\<close>\<close>

definition close_env :: "'r stmt" where
  "close_env k = var ''env'' (env_var k) (\<lambda>e. Inr (close e k))"

text \<open>\<^verbatim>\<open>os.makedirs(env_str, exist_ok=True)\<close>\<close>

definition makedirs_env_str :: "'r stmt" where
  "makedirs_env_str k = var ''env_str'' (env_str k) (\<lambda>name. os_makedirs name True k)"

text \<open>
  \<^verbatim>\<open>print(f"...")\<close> writes to the output area of the cell only, which the kernel state
  does not hold.
\<close>

definition print_line :: "'r stmt" where
  "print_line k = Inr k"

text \<open>\<^verbatim>\<open>hidden_dims = [64, 64]\<close>\<close>

definition assign_hidden_dims :: "int list \<Rightarrow> 'r stmt" where
  "assign_hidden_dims ds k = Inr (k\<lparr>hidden_dims := Some ds\<rparr>)"

text \<open>
  \<^verbatim>\<open>q_value_network = VanillaQValueNetwork(state_dim=env.observation_space.shape[0],
  action_dim=env.action_space.n, hidden_dims=hidden_dims, output_dim=1)\<close>
\<close>

definition VanillaQValueNetwork :: "gym_env \<Rightarrow> int list \<Rightarrow> pyval" where
  "VanillaQValueNetwork e ds =
     Instance ''VanillaQValueNetwork'' []
       [(''state_dim'', ObservationDim e), (''action_dim'', NumActions e),
        (''hidden_dims'', PInts ds), (''output_dim'', PInt 1)]"

definition assign_q_value_network :: "'r stmt" where
  "assign_q_value_network k =
     var ''env'' (env_var k) (\<lambda>e.
     var ''hidden_dims'' (hidden_dims k) (\<lambda>ds.
       Inr (k\<lparr>q_value_network := Some (VanillaQValueNetwork e ds)\<rparr>)))"

text \<open>
  \<^verbatim>\<open>double_dqn_agent = PearlAgent(policy_learner=DoubleDQN(...), replay_buffer=...)\<close>; the
  learner's arguments read \<^verbatim>\<open>env\<close> and then \<^verbatim>\<open>q_value_network\<close>.
\<close>

definition assign_double_dqn_agent ::
  "(gym_env \<Rightarrow> pyval \<Rightarrow> policy_learner) \<Rightarrow> replay_buffer \<Rightarrow> 'r stmt" where
  "assign_double_dqn_agent pl rb k =
     var ''env'' (env_var k) (\<lambda>e.
     var ''q_value_network'' (q_value_network k) (\<lambda>q.
       let (a, k') = PearlAgent (pl e q) rb k in Inr (k'\<lparr>double_dqn_agent := Some a\<rparr>)))"

text \<open>\<^verbatim>\<open>ppo_agent = PearlAgent(policy_learner=...(...), replay_buffer=...)\<close>\<close>

definition assign_ppo_agent :: "(gym_env \<Rightarrow> policy_learner) \<Rightarrow> replay_buffer \<Rightarrow> 'r stmt" where
  "assign_ppo_agent pl rb k =
     var ''env'' (env_var k) (\<lambda>e.
       let (a, k') = PearlAgent (pl e) rb k in Inr (k'\<lparr>ppo_agent := Some a\<rparr>))"

text \<open>\<^verbatim>\<open>info_double_dqn = online_learning(agent=double_dqn_agent, env=env, ...)\<close>\<close>

definition train_double_dqn ::
  "'r training_loop \<Rightarrow> (pearl_agent \<Rightarrow> gym_env \<Rightarrow> ol_call) \<Rightarrow> 'r stmt" where
  "train_double_dqn ol call k =
     var ''double_dqn_agent'' (double_dqn_agent k) (\<lambda>a.
     var ''env'' (env_var k) (\<lambda>e.
       let (i, k') = online_learning ol (call a e) k in Inr (k'\<lparr>info_double_dqn := Some i\<rparr>)))"

text \<open>\<^verbatim>\<open>info_ppo = online_learning(agent=ppo_agent, env=env, ...)\<close>\<close>

definition train_ppo ::
  "'r training_loop \<Rightarrow> (pearl_agent \<Rightarrow> gym_env \<Rightarrow> ol_call) \<Rightarrow> 'r stmt" where
  "train_ppo ol call k =
     var ''ppo_agent'' (ppo_agent k) (\<lambda>a.
     var ''env'' (env_var k) (\<lambda>e.
       let (i, k') = online_learning ol (call a e) k in Inr (k'\<lparr>info_ppo := Some i\<rparr>)))"

text \<open>
  \<^verbatim>\<open>torch.save(info["return"], os.path.join(env_str, file))\<close>, where \<open>info_v\<close> reads the
  variable \<^verbatim>\<open>info_double_dqn\<close> or \<^verbatim>\<open>info_ppo\<close>, named \<open>vname\<close>.
\<close>

definition save_return ::
  "('r kernel \<Rightarrow> 'r info option) \<Rightarrow> string \<Rightarrow> string \<Rightarrow> 'r stmt" where
  "save_return info_v vname file k =
     var vname (info_v k) (\<lambda>i.
     subscript i ''return'' (\<lambda>r.
     var ''env_str'' (env_str k) (\<lambda>d.
       torch_save r (os_path_join d file) k)))"

text \<open>\<^verbatim>\<open>plt.plot(np.arange(len(info["return"])), info["return"], label=...)\<close>\<close>

definition plot_return ::
  "('r kernel \<Rightarrow> 'r info option) \<Rightarrow> string \<Rightarrow> string \<Rightarrow> 'r stmt" where
  "plot_return info_v vname label k =
     var vname (info_v k) (\<lambda>i.
     subscript i ''return'' (\<lambda>r.
     var vname (info_v k) (\<lambda>i'.
     subscript i' ''return'' (\<lambda>r'.
       Inr (emit (PltPlot (np_arange (length r)) r' label) k)))))"

text \<open>\<^verbatim>\<open>plt.title\<close>, \<^verbatim>\<open>plt.xlabel\<close>, \<^verbatim>\<open>plt.ylabel\<close>, \<^verbatim>\<open>plt.legend\<close>, \<^verbatim>\<open>plt.show\<close>\<close>

definition plt :: "'r event \<Rightarrow> 'r stmt" where
  "plt ev k = Inr (emit ev k)"

definition chart_decoration :: "'r stmt" where
  "chart_decoration k =
     block
       [plt (PltTitle ''Episodic returns''), plt (PltXlabel ''Episode''),
        plt (PltYlabel ''Return''), plt PltLegend, plt PltShow] k"


section \<open>The configuration literals of the five experiments\<close>

text \<open>
  Cell 14, DoubleDQN on CartPole-v1: the policy learner, the replay buffer and the training call.
\<close>

definition learner_14 :: "gym_env \<Rightarrow> pyval \<Rightarrow> policy_learner" where
  "learner_14 e q =
     \<lparr>learner_class = DoubleDQN,
      learner_kwargs =
        [(''state_dim'', ObservationDim e), (''action_space'', ActionSpace e),
         (''batch_size'', PInt 64), (''training_rounds'', PInt 10),
         (''soft_update_tau'', PFloat 75 (- 2)), (''network_instance'', q),
         (''action_representation_module'',
            OneHotActionTensorRepresentationModule e)]\<rparr>"

definition buffer_14 :: replay_buffer where
  "buffer_14 = \<lparr>buffer_class = FIFOOffPolicyReplayBuffer, capacity = 10000\<rparr>"

definition call_14 :: "pearl_agent \<Rightarrow> gym_env \<Rightarrow> ol_call" where
  "call_14 a e =
     \<lparr>agent = a, env = e, number_of_episodes = Some 750,
      print_every_x_episodes = Some 25, record_period = Some 25,
      learn_after_episode = Some True, learn_every_k_steps = None,
      seed = Some 0\<rparr>"

text \<open>
  Cell 17, PPO on CartPole-v1: the policy learner, the replay buffer and the training call.
\<close>

definition learner_17 :: "gym_env \<Rightarrow> policy_learner" where
  "learner_17 e =
     \<lparr>learner_class = ProximalPolicyOptimization,
      learner_kwargs =
        [(''state_dim'', ObservationDim e), (''use_critic'', PBool True),
         (''action_space'', ActionSpace e),
         (''actor_hidden_dims'', PInts [64, 64]),
         (''critic_hidden_dims'', PInts [64, 64]),
         (''batch_size'', PInt 128), (''training_rounds'', PInt 10),
         (''critic_learning_rate'', PFloat 1 (- 3)),
         (''actor_learning_rate'', PFloat 1 (- 3)),
         (''action_representation_module'',
            OneHotActionTensorRepresentationModule e)]\<rparr>"

definition buffer_17 :: replay_buffer where
  "buffer_17 = \<lparr>buffer_class = OnPolicyReplayBuffer, capacity = 250000\<rparr>"

definition call_17 :: "pearl_agent \<Rightarrow> gym_env \<Rightarrow> ol_call" where
  "call_17 a e =
     \<lparr>agent = a, env = e, number_of_episodes = Some 750,
      print_every_x_episodes = Some 25, record_period = Some 25,
      learn_after_episode = Some True, learn_every_k_steps = None,
      seed = Some 0\<rparr>"

text \<open>
  Cell 22, DoubleDQN on LunarLander-v2: the policy learner, the replay buffer and the training call.
\<close>

definition learner_22 :: "gym_env \<Rightarrow> pyval \<Rightarrow> policy_learner" where
  "learner_22 e q =
     \<lparr>learner_class = DoubleDQN,
      learner_kwargs =
        [(''state_dim'', ObservationDim e), (''action_space'', ActionSpace e),
         (''batch_size'', PInt 32), (''training_rounds'', PInt 4),
         (''learning_rate'', PFloat 1 (- 4)), (''network_instance'', q),
         (''exploration_module'',
            Instance ''EGreedyExploration'' [PFloat 5 (- 2)] []),
         (''action_representation_module'',
            OneHotActionTensorRepresentationModule e)]\<rparr>"

definition buffer_22 :: replay_buffer where
  "buffer_22 = \<lparr>buffer_class = FIFOOffPolicyReplayBuffer, capacity = 1000000\<rparr>"

definition call_22 :: "pearl_agent \<Rightarrow> gym_env \<Rightarrow> ol_call" where
  "call_22 a e =
     \<lparr>agent = a, env = e, number_of_episodes = Some 10000,
      print_every_x_episodes = Some 100, record_period = Some 100,
      learn_after_episode = Some True, learn_every_k_steps = None,
      seed = Some 0\<rparr>"

text \<open>
  Cell 25, PPO on LunarLander-v2: the policy learner, the replay buffer and the training call.
\<close>

definition learner_25 :: "gym_env \<Rightarrow> policy_learner" where
  "learner_25 e =
     \<lparr>learner_class = ProximalPolicyOptimization,
      learner_kwargs =
        [(''state_dim'', ObservationDim e), (''use_critic'', PBool True),
         (''action_space'', ActionSpace e),
         (''actor_hidden_dims'', PInts [64, 64]),
         (''critic_hidden_dims'', PInts [64, 64]),
         (''critic_learning_rate'', PFloat 1 (- 4)),
         (''actor_learning_rate'', PFloat 1 (- 4)),
         (''epsilon'', PFloat 2 (- 1)),
         (''batch_size'', PInt 128), (''training_rounds'', PInt 10),
         (''entropy_bonus_scaling'', PFloat 1 (- 2)),
         (''action_representation_module'',
            OneHotActionTensorRepresentationModule e)]\<rparr>"

definition buffer_25 :: replay_buffer where
  "buffer_25 = \<lparr>buffer_class = OnPolicyReplayBuffer, capacity = 250000\<rparr>"

definition call_25 :: "pearl_agent \<Rightarrow> gym_env \<Rightarrow> ol_call" where
  "call_25 a e =
     \<lparr>agent = a, env = e, number_of_episodes = Some 10000,
      print_every_x_episodes = Some 100, record_period = Some 100,
      learn_after_episode = Some False, learn_every_k_steps = Some 2048,
      seed = Some 0\<rparr>"

text \<open>
  Cell 29, continuous PPO on LunarLanderContinuous-v2: the policy learner, the replay buffer and the training call.
\<close>

definition learner_29 :: "gym_env \<Rightarrow> policy_learner" where
  "learner_29 e =
     \<lparr>learner_class = ContinuousProximalPolicyOptimization,
      learner_kwargs =
        [(''state_dim'', ObservationDim e), (''use_critic'', PBool True),
         (''action_space'', ActionSpace e),
         (''actor_hidden_dims'', PInts [64, 64]),
         (''critic_hidden_dims'', PInts [64, 64]),
         (''critic_learning_rate'', PFloat 3 (- 4)),
         (''actor_learning_rate'', PFloat 3 (- 4)),
         (''epsilon'', PFloat 2 (- 1)),
         (''batch_size'', PInt 64), (''normalize_gae'', PBool True),
         (''training_rounds'', PInt 20),
         (''entropy_bonus_scaling'', PFloat 1 (- 2))]\<rparr>"

definition buffer_29 :: replay_buffer where
  "buffer_29 = \<lparr>buffer_class = OnPolicyReplayBuffer, capacity = 250000\<rparr>"

definition call_29 :: "pearl_agent \<Rightarrow> gym_env \<Rightarrow> ol_call" where
  "call_29 a e =
     \<lparr>agent = a, env = e, number_of_episodes = Some 10000,
      print_every_x_episodes = Some 100, record_period = Some 100,
      learn_after_episode = Some False, learn_every_k_steps = Some 2048,
      seed = Some 0\<rparr>"


section \<open>The cells\<close>

text \<open>
  The cells carry the numbers they have in the file, counted from 0 with the markdown cells.
  Cells 1 to 7 are shell and pip commands; the code cells from cell 9 on are modelled.
\<close>

text \<open>Cell 9: the imports, then \<^verbatim>\<open>set_seed(0)\<close>.\<close>

definition cell_9 :: "'r stmt" where
  "cell_9 k = block [set_seed 0] k"

text \<open>Cell 10: seven \<^verbatim>\<open>print\<close> lines with the versions.\<close>

definition cell_10 :: "'r stmt" where
  "cell_10 k =
     block
       [print_line, print_line, print_line, print_line, print_line, print_line, print_line] k"

text \<open>Cell 12, section \<^verbatim>\<open>CarPole-v1\<close>.\<close>

definition cell_12 :: "'r stmt" where
  "cell_12 k =
     block
       [assign_env_str ''CartPole-v1'', make_env,
        print_line, print_line, print_line, print_line, print_line,
        close_env, makedirs_env_str] k"

text \<open>Cell 14: Double DQN on CartPole.\<close>

definition cell_14 :: "'r training_loop \<Rightarrow> 'r stmt" where
  "cell_14 ol k =
     block
       [make_env,
        assign_hidden_dims [64, 64],
        assign_q_value_network,
        assign_double_dqn_agent learner_14 buffer_14,
        train_double_dqn ol call_14,
        close_env] k"

text \<open>Cells 15 and 23: save and plot the returns of Double DQN.\<close>

definition cell_15 :: "'r stmt" where
  "cell_15 k =
     block
       [save_return info_double_dqn ''info_double_dqn'' ''info_double_dqn_return.pt'',
        plot_return info_double_dqn ''info_double_dqn'' ''Double DQN'',
        chart_decoration] k"

text \<open>Cell 17: PPO on CartPole.\<close>

definition cell_17 :: "'r training_loop \<Rightarrow> 'r stmt" where
  "cell_17 ol k =
     block
       [make_env,
        assign_ppo_agent learner_17 buffer_17,
        train_ppo ol call_17,
        close_env] k"

text \<open>Cells 18, 26 and 30: save and plot the returns of PPO.\<close>

definition cell_18 :: "'r stmt" where
  "cell_18 k =
     block
       [save_return info_ppo ''info_ppo'' ''info_ppo_return.pt'',
        plot_return info_ppo ''info_ppo'' ''PPO'',
        chart_decoration] k"

text \<open>Cell 20, section \<^verbatim>\<open>LunarLander-v2\<close>; the directory is made twice.\<close>

definition cell_20 :: "'r stmt" where
  "cell_20 k =
     block
       [assign_env_str ''LunarLander-v2'', makedirs_env_str, make_env,
        print_line, print_line, print_line, print_line, print_line,
        close_env, makedirs_env_str] k"

text \<open>Cell 22: Double DQN on LunarLander.\<close>

definition cell_22 :: "'r training_loop \<Rightarrow> 'r stmt" where
  "cell_22 ol k =
     block
       [make_env,
        assign_hidden_dims [64, 64],
        assign_q_value_network,
        assign_double_dqn_agent learner_22 buffer_22,
        train_double_dqn ol call_22,
        close_env] k"

definition cell_23 :: "'r stmt" where
  "cell_23 k = cell_15 k"

text \<open>Cell 25: PPO on LunarLander, discrete actions.\<close>

definition cell_25 :: "'r training_loop \<Rightarrow> 'r stmt" where
  "cell_25 ol k =
     block
       [make_env,
        assign_ppo_agent learner_25 buffer_25,
        train_ppo ol call_25,
        close_env] k"

definition cell_26 :: "'r stmt" where
  "cell_26 k = cell_18 k"

text \<open>Cell 28, section \<^verbatim>\<open>LunarLanderContinuous-v2\<close>.\<close>

definition cell_28 :: "'r stmt" where
  "cell_28 k =
     block
       [assign_env_str ''LunarLanderContinuous-v2'', make_env,
        print_line, print_line, print_line, print_line, print_line,
        close_env, makedirs_env_str] k"

text \<open>Cell 29: continuous PPO on LunarLanderContinuous.\<close>

definition cell_29 :: "'r training_loop \<Rightarrow> 'r stmt" where
  "cell_29 ol k =
     block
       [make_env,
        assign_ppo_agent learner_29 buffer_29,
        train_ppo ol call_29,
        close_env] k"

definition cell_30 :: "'r stmt" where
  "cell_30 k = cell_18 k"

text \<open>Running one cell, and the code cells from the imports on, top to bottom.\<close>

definition run_cell :: "nat \<Rightarrow> 'r stmt \<Rightarrow> 'r stmt" where
  "run_cell n c k = c (k\<lparr>cell_no := n\<rparr>)"

definition notebook :: "'r training_loop \<Rightarrow> 'r stmt" where
  "notebook ol k =
     block
       [run_cell 9 cell_9, run_cell 10 cell_10,
        run_cell 12 cell_12,
        run_cell 14 (cell_14 ol), run_cell 15 cell_15,
        run_cell 17 (cell_17 ol), run_cell 18 cell_18,
        run_cell 20 cell_20,
        run_cell 22 (cell_22 ol), run_cell 23 cell_23,
        run_cell 25 (cell_25 ol), run_cell 26 cell_26,
        run_cell 28 cell_28,
        run_cell 29 (cell_29 ol), run_cell 30 cell_30] k"


section \<open>Reading the log\<close>

definition events :: "'r kernel \<Rightarrow> 'r event list" where
  "events k = map snd (log k)"

text \<open>The calls of the training loop, the agents and environments built, in order.\<close>

fun trainings :: "'r event list \<Rightarrow> ol_call list" where
  "trainings [] = []"
| "trainings (Train c # es) = c # trainings es"
| "trainings (_ # es) = trainings es"

fun constructed_agents :: "'r event list \<Rightarrow> pearl_agent list" where
  "constructed_agents [] = []"
| "constructed_agents (AgentNew a # es) = a # constructed_agents es"
| "constructed_agents (_ # es) = constructed_agents es"

fun constructed_envs :: "'r event list \<Rightarrow> gym_env list" where
  "constructed_envs [] = []"
| "constructed_envs (EnvMake e # es) = e # constructed_envs es"
| "constructed_envs (_ # es) = constructed_envs es"

text \<open>What was saved, with its path, and what was plotted, with its abscissae.\<close>

fun saves :: "'r event list \<Rightarrow> ('r list \<times> string) list" where
  "saves [] = []"
| "saves (Save r f # es) = (r, f) # saves es"
| "saves (_ # es) = saves es"


fun is_Train :: "'r event \<Rightarrow> bool" where
  "is_Train (Train c) = True"
| "is_Train _ = False"

fun is_AgentNew :: "'r event \<Rightarrow> bool" where
  "is_AgentNew (AgentNew a) = True"
| "is_AgentNew _ = False"

text \<open>The cells in which an event of a kind happens.\<close>

definition cells_of :: "('r event \<Rightarrow> bool) \<Rightarrow> (nat \<times> 'r event) list \<Rightarrow> nat list" where
  "cells_of P l = map fst (filter (\<lambda>x. P (snd x)) l)"

text \<open>The series under the key \<^verbatim>\<open>"return"\<close> of the dictionary that a call returns.\<close>

definition returned :: "'r training_loop \<Rightarrow> ol_call \<Rightarrow> 'r list" where
  "returned ol c = the (ol c ''return'')"


text \<open>
  Training, saving and plotting, with all other events left out: each call is followed by
  the save of what it returned, under the directory of its environment, and then by the plot
  of the same series against its indices \<open>0, 1, ..., length r - 1\<close>.
\<close>

fun is_pipeline :: "'r event \<Rightarrow> bool" where
  "is_pipeline (Train c) = True"
| "is_pipeline (Save r f) = True"
| "is_pipeline (PltPlot xs ys l) = True"
| "is_pipeline _ = False"

fun save_then_plot :: "'r training_loop \<Rightarrow> 'r event list \<Rightarrow> bool" where
  "save_then_plot ol [] = True"
| "save_then_plot ol (Train c # Save r f # PltPlot xs ys l # es) =
     (ol c ''return'' = Some r \<and> os_path_dirname f = env_id (env c) \<and>
      xs = [0..<length r] \<and> ys = r \<and> save_then_plot ol es)"
| "save_then_plot ol _ = False"

text \<open>The handles of the open environments after an event, and after a list of events.\<close>

fun env_step :: "int list \<Rightarrow> 'r event \<Rightarrow> int list" where
  "env_step os (EnvMake e) = os @ [env_handle e]"
| "env_step os (EnvClose e) = removeAll (env_handle e) os"
| "env_step os _ = os"

definition open_after :: "'r event list \<Rightarrow> int list" where
  "open_after es = foldl env_step [] es"

text \<open>At most one environment is open from \<open>os\<close> on, at every moment of \<open>es\<close>.\<close>

fun at_most_one_open :: "int list \<Rightarrow> 'r event list \<Rightarrow> bool" where
  "at_most_one_open os [] = (length os \<le> 1)"
| "at_most_one_open os (ev # es) = (length os \<le> 1 \<and> at_most_one_open (env_step os ev) es)"

text \<open>Among the openings and closings, each opening is followed at once by its closing.\<close>

fun is_env_event :: "'r event \<Rightarrow> bool" where
  "is_env_event (EnvMake e) = True"
| "is_env_event (EnvClose e) = True"
| "is_env_event _ = False"

fun open_close_pairs :: "'r event list \<Rightarrow> bool" where
  "open_close_pairs [] = True"
| "open_close_pairs (EnvMake e # EnvClose e' # es) = (e = e' \<and> open_close_pairs es)"
| "open_close_pairs _ = False"

text \<open>The replay buffer that goes with a learner.\<close>

fun buffer_for :: "learner_class \<Rightarrow> buffer_class" where
  "buffer_for DoubleDQN = FIFOOffPolicyReplayBuffer"
| "buffer_for ProximalPolicyOptimization = OnPolicyReplayBuffer"
| "buffer_for ContinuousProximalPolicyOptimization = OnPolicyReplayBuffer"

definition learner_of :: "ol_call \<Rightarrow> learner_class" where
  "learner_of c = learner_class (policy_learner (agent c))"

text \<open>The seed is set to 0 before anything else happens.\<close>

fun seed_first :: "'r event list \<Rightarrow> bool" where
  "seed_first (SetSeed n # es) = (n = 0)"
| "seed_first _ = False"

text \<open>
  Every save goes to a directory that an earlier cell of the same section has made with
  \<^verbatim>\<open>exist_ok=True\<close>. A section starts where \<^verbatim>\<open>env_str\<close> is assigned; \<open>made\<close> holds the
  directories made in the section so far, each with the cell that made it.
\<close>

fun saves_guarded :: "(nat \<times> string) list \<Rightarrow> (nat \<times> 'r event) list \<Rightarrow> bool" where
  "saves_guarded made [] = True"
| "saves_guarded made ((n, AssignEnvStr s) # es) = saves_guarded [] es"
| "saves_guarded made ((n, Makedirs d ok) # es) =
     saves_guarded (if ok then (n, d) # made else made) es"
| "saves_guarded made ((n, Save r f) # es) =
     (list_ex (\<lambda>(m, d). m < n \<and> d = os_path_dirname f) made \<and> saves_guarded made es)"
| "saves_guarded made (_ # es) = saves_guarded made es"

fun exist_ok_always :: "'r event list \<Rightarrow> bool" where
  "exist_ok_always [] = True"
| "exist_ok_always (Makedirs d ok # es) = (ok \<and> exist_ok_always es)"
| "exist_ok_always (_ # es) = exist_ok_always es"


section \<open>The objects of a run\<close>

text \<open>
  A run from a fresh kernel numbers its objects from 0: the environments of cells 12, 14, 17,
  20, 22, 25, 28 and 29 are 0, 1, 3, 5, 6, 8, 10 and 11, the agents of cells 14, 17, 22, 25
  and 29 are 2, 4, 7, 9 and 12.
\<close>

definition env_at :: "int \<Rightarrow> string \<Rightarrow> gym_env" where
  "env_at h name = \<lparr>env_handle = h, env_id = name\<rparr>"

definition agent_14 :: pearl_agent where
  "agent_14 =
     \<lparr>agent_id = 2,
      policy_learner =
        learner_14 (env_at 1 ''CartPole-v1'')
          (VanillaQValueNetwork (env_at 1 ''CartPole-v1'') [64, 64]),
      replay_buffer = buffer_14\<rparr>"

definition agent_17 :: pearl_agent where
  "agent_17 =
     \<lparr>agent_id = 4, policy_learner = learner_17 (env_at 3 ''CartPole-v1''),
      replay_buffer = buffer_17\<rparr>"

definition agent_22 :: pearl_agent where
  "agent_22 =
     \<lparr>agent_id = 7,
      policy_learner =
        learner_22 (env_at 6 ''LunarLander-v2'')
          (VanillaQValueNetwork (env_at 6 ''LunarLander-v2'') [64, 64]),
      replay_buffer = buffer_22\<rparr>"

definition agent_25 :: pearl_agent where
  "agent_25 =
     \<lparr>agent_id = 9, policy_learner = learner_25 (env_at 8 ''LunarLander-v2''),
      replay_buffer = buffer_25\<rparr>"

definition agent_29 :: pearl_agent where
  "agent_29 =
     \<lparr>agent_id = 12, policy_learner = learner_29 (env_at 11 ''LunarLanderContinuous-v2''),
      replay_buffer = buffer_29\<rparr>"

definition train_14 :: ol_call where
  "train_14 = call_14 agent_14 (env_at 1 ''CartPole-v1'')"

definition train_17 :: ol_call where
  "train_17 = call_17 agent_17 (env_at 3 ''CartPole-v1'')"

definition train_22 :: ol_call where
  "train_22 = call_22 agent_22 (env_at 6 ''LunarLander-v2'')"

definition train_25 :: ol_call where
  "train_25 = call_25 agent_25 (env_at 8 ''LunarLander-v2'')"

definition train_29 :: ol_call where
  "train_29 = call_29 agent_29 (env_at 11 ''LunarLanderContinuous-v2'')"

text \<open>The events of an experiment cell and of a cell that saves and plots.\<close>

definition train_log ::
  "nat \<Rightarrow> gym_env \<Rightarrow> pearl_agent \<Rightarrow> ol_call \<Rightarrow> (nat \<times> 'r event) list" where
  "train_log n e a c = [(n, EnvMake e), (n, AgentNew a), (n, Train c), (n, EnvClose e)]"

definition chart_log ::
  "nat \<Rightarrow> 'r list \<Rightarrow> string \<Rightarrow> string \<Rightarrow> (nat \<times> 'r event) list" where
  "chart_log n r f l =
     [(n, Save r f), (n, PltPlot [0..<length r] r l),
      (n, PltTitle ''Episodic returns''), (n, PltXlabel ''Episode''),
      (n, PltYlabel ''Return''), (n, PltLegend), (n, PltShow)]"

text \<open>
  The log of a run that reaches the end, given the series \<open>r14\<close>, \<open>r17\<close>, \<open>r22\<close>, \<open>r25\<close> and
  \<open>r29\<close> that the five calls return (lemma \<open>notebook_InrE\<close> below computes it from the cells).
\<close>

definition run_log ::
  "'r list \<Rightarrow> 'r list \<Rightarrow> 'r list \<Rightarrow> 'r list \<Rightarrow> 'r list \<Rightarrow> (nat \<times> 'r event) list" where
  "run_log r14 r17 r22 r25 r29 =
     [(9, SetSeed 0),
      (12, AssignEnvStr ''CartPole-v1''), (12, EnvMake (env_at 0 ''CartPole-v1'')),
      (12, EnvClose (env_at 0 ''CartPole-v1'')), (12, Makedirs ''CartPole-v1'' True)]
     @ train_log 14 (env_at 1 ''CartPole-v1'') agent_14 train_14
     @ chart_log 15 r14
         (os_path_join ''CartPole-v1'' ''info_double_dqn_return.pt'') ''Double DQN''
     @ train_log 17 (env_at 3 ''CartPole-v1'') agent_17 train_17
     @ chart_log 18 r17 (os_path_join ''CartPole-v1'' ''info_ppo_return.pt'') ''PPO''
     @ [(20, AssignEnvStr ''LunarLander-v2''), (20, Makedirs ''LunarLander-v2'' True),
        (20, EnvMake (env_at 5 ''LunarLander-v2'')),
        (20, EnvClose (env_at 5 ''LunarLander-v2'')),
        (20, Makedirs ''LunarLander-v2'' True)]
     @ train_log 22 (env_at 6 ''LunarLander-v2'') agent_22 train_22
     @ chart_log 23 r22
         (os_path_join ''LunarLander-v2'' ''info_double_dqn_return.pt'') ''Double DQN''
     @ train_log 25 (env_at 8 ''LunarLander-v2'') agent_25 train_25
     @ chart_log 26 r25 (os_path_join ''LunarLander-v2'' ''info_ppo_return.pt'') ''PPO''
     @ [(28, AssignEnvStr ''LunarLanderContinuous-v2''),
        (28, EnvMake (env_at 10 ''LunarLanderContinuous-v2'')),
        (28, EnvClose (env_at 10 ''LunarLanderContinuous-v2'')),
        (28, Makedirs ''LunarLanderContinuous-v2'' True)]
     @ train_log 29 (env_at 11 ''LunarLanderContinuous-v2'') agent_29 train_29
     @ chart_log 30 r29
         (os_path_join ''LunarLanderContinuous-v2'' ''info_ppo_return.pt'') ''PPO''"

text \<open>A library for concrete runs: every call returns the same three returns.\<close>

definition three_returns :: "nat training_loop" where
  "three_returns c = [''return'' \<mapsto> [1, 2, 3]]"


section \<open>Paths\<close>

lemma dropWhile_append_hit:
  "\<forall>x\<in>set xs. P x \<Longrightarrow> \<not> P y \<Longrightarrow> dropWhile P (xs @ y # ys) = y # ys"
  by (induction xs) auto

lemma os_path_join_plain:
  assumes "d \<noteq> []" "last d \<noteq> CHR ''/''" "CHR ''/'' \<notin> set f"
  shows "os_path_join d f = d @ CHR ''/'' # f"
proof -
  have "f \<noteq> [] \<Longrightarrow> hd f \<noteq> CHR ''/''"
    using assms(3) by (cases f) auto
  then show ?thesis
    using assms by (auto simp: os_path_join_def)
qed

text \<open>The directory of a file joined to a directory name is that directory.\<close>

lemma os_path_dirname_join:
  assumes "d \<noteq> []" "last d \<noteq> CHR ''/''" "CHR ''/'' \<notin> set f"
  shows "os_path_dirname (os_path_join d f) = d"
proof -
  have "\<forall>x\<in>set (rev f). x \<noteq> CHR ''/''"
    using assms(3) by auto
  then have "dropWhile (\<lambda>c. c \<noteq> CHR ''/'') (rev f @ CHR ''/'' # rev d) = CHR ''/'' # rev d"
    by (intro dropWhile_append_hit) auto
  then have h: "rev (dropWhile (\<lambda>c. c \<noteq> CHR ''/'') (rev (d @ CHR ''/'' # f))) = d @ ''/''"
    by simp
  have r: "rstrip_slash (d @ ''/'') = d"
    using assms(1,2) by (cases d rule: rev_cases) (auto simp: rstrip_slash_def)
  show ?thesis
    unfolding os_path_dirname_def os_path_join_plain [OF assms] h r Let_def
    using assms(1) by simp
qed


section \<open>Running the notebook\<close>

lemmas statement_defs =
  chart_decoration_def plt_def plot_return_def save_return_def train_ppo_def
  train_double_dqn_def assign_ppo_agent_def assign_double_dqn_agent_def
  assign_q_value_network_def assign_hidden_dims_def print_line_def makedirs_env_str_def
  close_env_def make_env_def assign_env_str_def online_learning_def PearlAgent_def
  np_arange_def torch_save_def os_makedirs_def close_def GymEnvironment_def set_seed_def
  emit_def

lemmas cell_defs =
  notebook_def run_cell_def cell_9_def cell_10_def cell_12_def cell_14_def cell_15_def
  cell_17_def cell_18_def cell_20_def cell_22_def cell_23_def cell_25_def cell_26_def
  cell_28_def cell_29_def cell_30_def

lemmas run_defs =
  env_at_def agent_14_def agent_17_def agent_22_def agent_25_def agent_29_def
  train_14_def train_17_def train_22_def train_25_def train_29_def
  chart_log_def train_log_def run_log_def

text \<open>
  A run that reaches the end got a series under \<^verbatim>\<open>"return"\<close> from each of the five calls,
  and its log, environments, directories and files are these.
\<close>

lemma notebook_InrE [consumes 1, case_names run]:
  assumes "notebook ol (fresh_kernel D F) = Inr k"
  obtains r14 r17 r22 r25 r29 where
    "ol train_14 ''return'' = Some r14" "ol train_17 ''return'' = Some r17"
    "ol train_22 ''return'' = Some r22" "ol train_25 ''return'' = Some r25"
    "ol train_29 ''return'' = Some r29"
    "log k = run_log r14 r17 r22 r25 r29"
    "open_envs k = []" "global_seed k = Some 0"
    "dirs k =
       insert ''LunarLanderContinuous-v2''
         (insert ''LunarLander-v2'' (insert ''CartPole-v1'' D))"
    "files k = F
       (os_path_join ''CartPole-v1'' ''info_double_dqn_return.pt'' \<mapsto> r14,
        os_path_join ''CartPole-v1'' ''info_ppo_return.pt'' \<mapsto> r17,
        os_path_join ''LunarLander-v2'' ''info_double_dqn_return.pt'' \<mapsto> r22,
        os_path_join ''LunarLander-v2'' ''info_ppo_return.pt'' \<mapsto> r25,
        os_path_join ''LunarLanderContinuous-v2'' ''info_ppo_return.pt'' \<mapsto> r29)"
  using assms
  by (clarsimp simp add: cell_defs statement_defs fresh_kernel_def os_path_dirname_join
        run_defs Let_def split: option.splits)

text \<open>The run reaches the end when each of the five calls returns a series.\<close>

lemma notebook_completes:
  assumes "ol train_14 ''return'' \<noteq> None" "ol train_17 ''return'' \<noteq> None"
    "ol train_22 ''return'' \<noteq> None" "ol train_25 ''return'' \<noteq> None"
    "ol train_29 ''return'' \<noteq> None"
  shows "\<exists>k. notebook ol (fresh_kernel D F) = Inr k"
  using assms
  by (clarsimp simp add: cell_defs statement_defs fresh_kernel_def os_path_dirname_join
        run_defs Let_def split: option.splits)

lemma three_returns_completes:
  "\<exists>k. notebook three_returns (fresh_kernel D F) = Inr k"
  by (rule notebook_completes) (simp_all add: three_returns_def)

text \<open>The check \<open>at_most_one_open\<close> covers every moment of the list of events.\<close>

lemma at_most_one_open_take:
  "at_most_one_open os es \<Longrightarrow> length (foldl env_step os (take n es)) \<le> 1"
proof (induction es arbitrary: os n)
  case Nil
  then show ?case by simp
next
  case (Cons ev es)
  then show ?case by (cases n) simp_all
qed


section \<open>The claims\<close>

lemmas log_defs = events_def run_log_def train_log_def chart_log_def

lemmas call_defs =
  train_14_def train_17_def train_22_def train_25_def train_29_def
  call_14_def call_17_def call_22_def call_25_def call_29_def

lemmas agent_defs = agent_14_def agent_17_def agent_22_def agent_25_def agent_29_def

lemmas buffer_defs = buffer_14_def buffer_17_def buffer_22_def buffer_25_def buffer_29_def

lemmas learner_defs =
  learner_14_def learner_17_def learner_22_def learner_25_def learner_29_def

text \<open>
  C2. In a run that reaches the end, exactly one training call has the environment
  \<^verbatim>\<open>LunarLander-v2\<close> and a \<^verbatim>\<open>DoubleDQN\<close> learner, and the replay buffer of its agent is a
  \<^verbatim>\<open>FIFOOffPolicyReplayBuffer\<close> of capacity 1,000,000.
\<close>

theorem lunar_lander_dqn_buffer:
  assumes "notebook ol (fresh_kernel D F) = Inr k"
  shows "map (\<lambda>c. replay_buffer (agent c))
           (filter (\<lambda>c. env_id (env c) = ''LunarLander-v2'' \<and> learner_of c = DoubleDQN)
              (trainings (events k)))
         = [\<lparr>buffer_class = FIFOOffPolicyReplayBuffer, capacity = 1000000\<rparr>]"
  using assms
proof (cases rule: notebook_InrE)
  case (run r14 r17 r22 r25 r29)
  then show ?thesis
    by (simp add: log_defs call_defs agent_defs buffer_defs learner_defs learner_of_def
          env_at_def)
qed

theorem lunar_lander_dqn_buffer_witness:
  "\<exists>k. notebook three_returns (fresh_kernel {} Map.empty) = Inr k \<and>
       map (\<lambda>c. replay_buffer (agent c))
           (filter (\<lambda>c. env_id (env c) = ''LunarLander-v2'' \<and> learner_of c = DoubleDQN)
              (trainings (events k)))
         = [\<lparr>buffer_class = FIFOOffPolicyReplayBuffer, capacity = 1000000\<rparr>]"
proof -
  obtain k where k: "notebook three_returns (fresh_kernel {} Map.empty) = Inr k"
    using three_returns_completes by blast
  show ?thesis
    by (rule exI [of _ k], rule conjI [OF k lunar_lander_dqn_buffer [OF k]])
qed


text \<open>
  C3. In a run that reaches the end there are five training calls; the agents they train
  are, in order, exactly the agents that were constructed, which are five distinct objects;
  and the cells that call the training loop are the cells that construct an agent, namely
  cells 14, 17, 22, 25 and 29, once each.
\<close>

theorem one_training_call_per_agent:
  assumes "notebook ol (fresh_kernel D F) = Inr k"
  shows "length (trainings (events k)) = 5 \<and>
         map agent (trainings (events k)) = constructed_agents (events k) \<and>
         distinct (map agent_id (constructed_agents (events k))) \<and>
         cells_of is_Train (log k) = [14, 17, 22, 25, 29] \<and>
         cells_of is_AgentNew (log k) = [14, 17, 22, 25, 29]"
  using assms
proof (cases rule: notebook_InrE)
  case (run r14 r17 r22 r25 r29)
  then show ?thesis
    by (simp add: log_defs call_defs agent_defs cells_of_def)
qed

theorem one_training_call_per_agent_witness:
  "\<exists>k. notebook three_returns (fresh_kernel {} Map.empty) = Inr k \<and>
       (length (trainings (events k)) = 5 \<and>
        map agent (trainings (events k)) = constructed_agents (events k) \<and>
        distinct (map agent_id (constructed_agents (events k))) \<and>
        cells_of is_Train (log k) = [14, 17, 22, 25, 29] \<and>
        cells_of is_AgentNew (log k) = [14, 17, 22, 25, 29])"
proof -
  obtain k where k: "notebook three_returns (fresh_kernel {} Map.empty) = Inr k"
    using three_returns_completes by blast
  show ?thesis
    by (rule exI [of _ k], rule conjI [OF k one_training_call_per_agent [OF k]])
qed

lemma join_literals:
  "os_path_join ''CartPole-v1'' ''info_double_dqn_return.pt'' =
     ''CartPole-v1/info_double_dqn_return.pt''"
  "os_path_join ''CartPole-v1'' ''info_ppo_return.pt'' = ''CartPole-v1/info_ppo_return.pt''"
  "os_path_join ''LunarLander-v2'' ''info_double_dqn_return.pt'' =
     ''LunarLander-v2/info_double_dqn_return.pt''"
  "os_path_join ''LunarLander-v2'' ''info_ppo_return.pt'' =
     ''LunarLander-v2/info_ppo_return.pt''"
  "os_path_join ''LunarLanderContinuous-v2'' ''info_ppo_return.pt'' =
     ''LunarLanderContinuous-v2/info_ppo_return.pt''"
  by (simp_all add: os_path_join_def)



text \<open>
  C5. In a run that reaches the end, each of the five training calls is followed first by
  the save of the series it returned, to a file in the directory named after the
  environment of the call, and then by the plot of that series against its indices; and at
  the end each saved file holds the series saved to it.
\<close>

theorem save_before_plot:
  assumes "notebook ol (fresh_kernel D F) = Inr k"
  shows "save_then_plot ol (filter is_pipeline (events k)) \<and>
         length (trainings (events k)) = 5 \<and>
         list_all (\<lambda>(r, f). files k f = Some r) (saves (events k))"
  using assms
proof (cases rule: notebook_InrE)
  case (run r14 r17 r22 r25 r29)
  have "save_then_plot ol (filter is_pipeline (events k))"
    using run(1-6)
    by (simp add: log_defs os_path_dirname_join call_defs env_at_def)
  moreover have "length (trainings (events k)) = 5"
    using run(6) by (simp add: log_defs)
  moreover have "list_all (\<lambda>(r, f). files k f = Some r) (saves (events k))"
    using run(6,10) by (simp add: log_defs join_literals)
  ultimately show ?thesis by simp
qed

theorem save_before_plot_witness:
  "\<exists>k. notebook three_returns (fresh_kernel {} Map.empty) = Inr k \<and>
       (save_then_plot three_returns (filter is_pipeline (events k)) \<and>
        length (trainings (events k)) = 5 \<and>
        list_all (\<lambda>(r, f). files k f = Some r) (saves (events k)))"
proof -
  obtain k where k: "notebook three_returns (fresh_kernel {} Map.empty) = Inr k"
    using three_returns_completes by blast
  show ?thesis
    by (rule exI [of _ k], rule conjI [OF k save_before_plot [OF k]])
qed

text \<open>
  C6. In a run that reaches the end, among the constructions and closings of environments
  every construction is followed at once by the closing of the same environment; at every
  moment of the run at most one environment is open; none is open at the end; and eight
  distinct environments are constructed.
\<close>

theorem environments_closed_in_turn:
  assumes "notebook ol (fresh_kernel D F) = Inr k"
  shows "open_close_pairs (filter is_env_event (events k)) \<and>
         (\<forall>n. length (open_after (take n (events k))) \<le> 1) \<and>
         open_after (events k) = [] \<and> open_envs k = [] \<and>
         length (constructed_envs (events k)) = 8 \<and>
         distinct (map env_handle (constructed_envs (events k)))"
  using assms
proof (cases rule: notebook_InrE)
  case (run r14 r17 r22 r25 r29)
  have "open_close_pairs (filter is_env_event (events k))"
    using run(6) by (simp add: log_defs)
  moreover have "at_most_one_open [] (events k)"
    using run(6) by (simp add: log_defs env_at_def)
  then have "\<forall>n. length (open_after (take n (events k))) \<le> 1"
    unfolding open_after_def by (blast intro: at_most_one_open_take)
  moreover have "open_after (events k) = []"
    using run(6) by (simp add: log_defs open_after_def env_at_def)
  moreover have "length (constructed_envs (events k)) = 8"
    using run(6) by (simp add: log_defs)
  moreover have "distinct (map env_handle (constructed_envs (events k)))"
    using run(6) by (simp add: log_defs env_at_def)
  ultimately show ?thesis using run(7) by simp
qed

theorem environments_closed_in_turn_witness:
  "\<exists>k. notebook three_returns (fresh_kernel {} Map.empty) = Inr k \<and>
       (open_close_pairs (filter is_env_event (events k)) \<and>
        (\<forall>n. length (open_after (take n (events k))) \<le> 1) \<and>
        open_after (events k) = [] \<and> open_envs k = [] \<and>
        length (constructed_envs (events k)) = 8 \<and>
        distinct (map env_handle (constructed_envs (events k))))"
proof -
  obtain k where k: "notebook three_returns (fresh_kernel {} Map.empty) = Inr k"
    using three_returns_completes by blast
  show ?thesis
    by (rule exI [of _ k], rule conjI [OF k environments_closed_in_turn [OF k]])
qed

text \<open>
  C7. In a run that reaches the end, each of the five agents constructed has the replay
  buffer that goes with its learner: \<^verbatim>\<open>FIFOOffPolicyReplayBuffer\<close> with \<^verbatim>\<open>DoubleDQN\<close>,
  \<^verbatim>\<open>OnPolicyReplayBuffer\<close> with \<^verbatim>\<open>ProximalPolicyOptimization\<close> and with
  \<^verbatim>\<open>ContinuousProximalPolicyOptimization\<close>.
\<close>

theorem learner_buffer_pairing:
  assumes "notebook ol (fresh_kernel D F) = Inr k"
  shows "list_all (\<lambda>a. buffer_class (replay_buffer a) =
                        buffer_for (learner_class (policy_learner a)))
           (constructed_agents (events k)) \<and>
         length (constructed_agents (events k)) = 5"
  using assms
proof (cases rule: notebook_InrE)
  case (run r14 r17 r22 r25 r29)
  then show ?thesis
    by (simp add: log_defs agent_defs buffer_defs learner_defs)
qed

theorem learner_buffer_pairing_witness:
  "\<exists>k. notebook three_returns (fresh_kernel {} Map.empty) = Inr k \<and>
       (list_all (\<lambda>a. buffer_class (replay_buffer a) =
                        buffer_for (learner_class (policy_learner a)))
           (constructed_agents (events k)) \<and>
        length (constructed_agents (events k)) = 5)"
proof -
  obtain k where k: "notebook three_returns (fresh_kernel {} Map.empty) = Inr k"
    using three_returns_completes by blast
  show ?thesis
    by (rule exI [of _ k], rule conjI [OF k learner_buffer_pairing [OF k]])
qed

text \<open>
  C8. In a run that reaches the end, the learners trained are exactly \<^verbatim>\<open>DoubleDQN\<close>,
  \<^verbatim>\<open>ProximalPolicyOptimization\<close> and \<^verbatim>\<open>ContinuousProximalPolicyOptimization\<close>; the
  environments trained on, and the environments constructed, are exactly \<^verbatim>\<open>CartPole-v1\<close>,
  \<^verbatim>\<open>LunarLander-v2\<close> and \<^verbatim>\<open>LunarLanderContinuous-v2\<close>; and the one call with the continuous
  learner is on \<^verbatim>\<open>LunarLanderContinuous-v2\<close>.
\<close>

theorem algorithms_and_environments:
  assumes "notebook ol (fresh_kernel D F) = Inr k"
  shows "set (map learner_of (trainings (events k))) =
           {DoubleDQN, ProximalPolicyOptimization, ContinuousProximalPolicyOptimization} \<and>
         set (map (\<lambda>c. env_id (env c)) (trainings (events k))) =
           {''CartPole-v1'', ''LunarLander-v2'', ''LunarLanderContinuous-v2''} \<and>
         set (map env_id (constructed_envs (events k))) =
           {''CartPole-v1'', ''LunarLander-v2'', ''LunarLanderContinuous-v2''} \<and>
         map (\<lambda>c. env_id (env c))
           (filter (\<lambda>c. learner_of c = ContinuousProximalPolicyOptimization)
              (trainings (events k))) = [''LunarLanderContinuous-v2'']"
  using assms
proof (cases rule: notebook_InrE)
  case (run r14 r17 r22 r25 r29)
  have "map learner_of (trainings (events k)) =
          [DoubleDQN, ProximalPolicyOptimization, DoubleDQN, ProximalPolicyOptimization,
           ContinuousProximalPolicyOptimization]"
    using run(6) by (simp add: log_defs call_defs agent_defs learner_defs learner_of_def)
  moreover have "map (\<lambda>c. env_id (env c)) (trainings (events k)) =
          [''CartPole-v1'', ''CartPole-v1'', ''LunarLander-v2'', ''LunarLander-v2'',
           ''LunarLanderContinuous-v2'']"
    using run(6) by (simp add: log_defs call_defs env_at_def)
  moreover have "map env_id (constructed_envs (events k)) =
          [''CartPole-v1'', ''CartPole-v1'', ''CartPole-v1'', ''LunarLander-v2'',
           ''LunarLander-v2'', ''LunarLander-v2'', ''LunarLanderContinuous-v2'',
           ''LunarLanderContinuous-v2'']"
    using run(6) by (simp add: log_defs env_at_def)
  moreover have "map (\<lambda>c. env_id (env c))
           (filter (\<lambda>c. learner_of c = ContinuousProximalPolicyOptimization)
              (trainings (events k))) = [''LunarLanderContinuous-v2'']"
    using run(6)
    by (simp add: log_defs call_defs agent_defs learner_defs learner_of_def env_at_def)
  ultimately show ?thesis
    by (simp add: insert_commute)
qed

theorem algorithms_and_environments_witness:
  "\<exists>k. notebook three_returns (fresh_kernel {} Map.empty) = Inr k \<and>
       (set (map learner_of (trainings (events k))) =
           {DoubleDQN, ProximalPolicyOptimization, ContinuousProximalPolicyOptimization} \<and>
        set (map (\<lambda>c. env_id (env c)) (trainings (events k))) =
           {''CartPole-v1'', ''LunarLander-v2'', ''LunarLanderContinuous-v2''} \<and>
        set (map env_id (constructed_envs (events k))) =
           {''CartPole-v1'', ''LunarLander-v2'', ''LunarLanderContinuous-v2''} \<and>
        map (\<lambda>c. env_id (env c))
           (filter (\<lambda>c. learner_of c = ContinuousProximalPolicyOptimization)
              (trainings (events k))) = [''LunarLanderContinuous-v2''])"
proof -
  obtain k where k: "notebook three_returns (fresh_kernel {} Map.empty) = Inr k"
    using three_returns_completes by blast
  show ?thesis
    by (rule exI [of _ k], rule conjI [OF k algorithms_and_environments [OF k]])
qed

text \<open>
  C9. In a run that reaches the end, \<^verbatim>\<open>set_seed(0)\<close> is the first event and the global seed
  is 0; each of the five training calls passes \<^verbatim>\<open>seed=0\<close>; any second run that reaches the
  end, whatever the library and the working directory, makes the same training calls; and
  with the same library it saves the same series.
\<close>

theorem seeded_and_repeatable:
  assumes "notebook ol (fresh_kernel D F) = Inr k"
    and "notebook ol' (fresh_kernel D' F') = Inr k'"
  shows "seed_first (events k) \<and> global_seed k = Some 0 \<and>
         list_all (\<lambda>c. seed c = Some 0) (trainings (events k)) \<and>
         length (trainings (events k)) = 5 \<and>
         trainings (events k') = trainings (events k) \<and>
         (ol' = ol \<longrightarrow> map fst (saves (events k')) = map fst (saves (events k)))"
  using assms(1)
proof (cases rule: notebook_InrE)
  case run1: (run r14 r17 r22 r25 r29)
  from assms(2) show ?thesis
  proof (cases rule: notebook_InrE)
    case run2: (run s14 s17 s22 s25 s29)
    have "seed_first (events k)"
      using run1(6) by (simp add: log_defs)
    moreover have "list_all (\<lambda>c. seed c = Some 0) (trainings (events k))"
      using run1(6) by (simp add: log_defs call_defs)
    moreover have "length (trainings (events k)) = 5"
      using run1(6) by (simp add: log_defs)
    moreover have "trainings (events k') = trainings (events k)"
      using run1(6) run2(6) by (simp add: log_defs)
    moreover have "ol' = ol \<longrightarrow> map fst (saves (events k')) = map fst (saves (events k))"
      using run1(1-6) run2(1-6) by (auto simp add: log_defs)
    ultimately show ?thesis using run1(8) by simp
  qed
qed

theorem seeded_and_repeatable_witness:
  "\<exists>k k'. notebook three_returns (fresh_kernel {} Map.empty) = Inr k \<and>
       notebook three_returns (fresh_kernel {''CartPole-v1''} Map.empty) = Inr k' \<and>
       seed_first (events k) \<and> global_seed k = Some 0 \<and>
       list_all (\<lambda>c. seed c = Some 0) (trainings (events k)) \<and>
       length (trainings (events k)) = 5 \<and>
       trainings (events k') = trainings (events k) \<and>
       map fst (saves (events k')) = map fst (saves (events k))"
proof -
  obtain k where k: "notebook three_returns (fresh_kernel {} Map.empty) = Inr k"
    using three_returns_completes by blast
  obtain k' where
    k': "notebook three_returns (fresh_kernel {''CartPole-v1''} Map.empty) = Inr k'"
    using three_returns_completes by blast
  show ?thesis
    using k k' seeded_and_repeatable [OF k k'] by (intro exI [of _ k] exI [of _ k']) simp
qed

text \<open>
  C10. In a run that reaches the end, every save goes to a directory that an earlier cell
  of the same section has made with \<^verbatim>\<open>os.makedirs(env_str, exist_ok=True)\<close>; every
  \<^verbatim>\<open>os.makedirs\<close> passes \<^verbatim>\<open>exist_ok=True\<close>; the directory of each of the five saved files
  exists; and a second run, in the working directory that the first one leaves, reaches the
  end as well.
\<close>

theorem save_directory_exists:
  assumes "notebook ol (fresh_kernel D F) = Inr k"
  shows "saves_guarded [] (log k) \<and> exist_ok_always (events k) \<and>
         list_all (\<lambda>(r, f). os_path_dirname f \<in> dirs k) (saves (events k)) \<and>
         length (saves (events k)) = 5 \<and>
         (\<exists>k'. notebook ol (fresh_kernel (dirs k) (files k)) = Inr k')"
  using assms
proof (cases rule: notebook_InrE)
  case (run r14 r17 r22 r25 r29)
  have "saves_guarded [] (log k)"
    using run(6) by (simp add: log_defs os_path_dirname_join)
  moreover have "exist_ok_always (events k)"
    using run(6) by (simp add: log_defs)
  moreover have "list_all (\<lambda>(r, f). os_path_dirname f \<in> dirs k) (saves (events k))"
    using run(6,9) by (simp add: log_defs os_path_dirname_join)
  moreover have "length (saves (events k)) = 5"
    using run(6) by (simp add: log_defs)
  moreover have "\<exists>k'. notebook ol (fresh_kernel (dirs k) (files k)) = Inr k'"
    using run(1-5) by (intro notebook_completes) simp_all
  ultimately show ?thesis by simp
qed

theorem save_directory_exists_witness:
  "\<exists>k. notebook three_returns (fresh_kernel {} Map.empty) = Inr k \<and>
       (saves_guarded [] (log k) \<and> exist_ok_always (events k) \<and>
        list_all (\<lambda>(r, f). os_path_dirname f \<in> dirs k) (saves (events k)) \<and>
        length (saves (events k)) = 5 \<and>
        (\<exists>k'. notebook three_returns (fresh_kernel (dirs k) (files k)) = Inr k'))"
proof -
  obtain k where k: "notebook three_returns (fresh_kernel {} Map.empty) = Inr k"
    using three_returns_completes by blast
  show ?thesis
    by (rule exI [of _ k], rule conjI [OF k save_directory_exists [OF k]])
qed

end
